theory Spec2Isabelle
  imports Main
begin

section \<open>JavaScript values\<close>

text \<open>
  The values that travel through \<^verbatim>\<open>server-ba.js\<close>: request bodies produced by the
  Express body parsers, the results of \<^verbatim>\<open>JSON.parse\<close>, and the object literals the
  handlers build. An object is its list of own properties in insertion order, with
  distinct keys. Numbers are carried as integers: no claim computes with them, only
  their truthiness and their decimal rendering are read.
\<close>

datatype jsval =
    JUndefined
  | JNull
  | JBool bool
  | JNum int
  | JStr string
  | JArr "jsval list"
  | JObj "(string \<times> jsval) list"

text \<open>
  Exceptions by constructor; \<^verbatim>\<open>e.message\<close> is all the handlers read of them.
  \<open>Error\<close> is what the program itself throws with \<^verbatim>\<open>new Error(...)\<close>; the other
  three are raised by the engine. Their texts are V8's (Node 18+).
\<close>

datatype js_error =
    Error string
  | TypeError string
  | ReferenceError string
  | SyntaxError string

fun message :: "js_error \<Rightarrow> string" where
  "message (Error m) = m"
| "message (TypeError m) = m"
| "message (ReferenceError m) = m"
| "message (SyntaxError m) = m"

text \<open>ToBoolean: what \<^verbatim>\<open>!x\<close>, \<^verbatim>\<open>x || y\<close> and \<^verbatim>\<open>x ? a : b\<close> test.\<close>

fun truthy :: "jsval \<Rightarrow> bool" where
  "truthy JUndefined = False"
| "truthy JNull = False"
| "truthy (JBool b) = b"
| "truthy (JNum n) = (n \<noteq> 0)"
| "truthy (JStr s) = (s \<noteq> [])"
| "truthy (JArr xs) = True"
| "truthy (JObj kvs) = True"

text \<open>\<^verbatim>\<open>a || b\<close> on values.\<close>

definition js_or :: "jsval \<Rightarrow> jsval \<Rightarrow> jsval" where
  "js_or a b = (if truthy a then a else b)"

definition quote :: string where
  "quote = [CHR 0x27]"

subsection \<open>Numbers and values in template literals\<close>

text \<open>
  The decimal numeral of a natural number and of an integer. A template literal
  renders \<^verbatim>\<open>r.status\<close>, an integer of three digits, as the former.
\<close>

definition digit :: "nat \<Rightarrow> char" where
  "digit n = ''0123456789'' ! n"

function show_nat :: "nat \<Rightarrow> string" where
  "show_nat n = (if n < 10 then [digit n] else show_nat (n div 10) @ [digit (n mod 10)])"
  by pat_completeness auto
termination
  by (relation "measure (\<lambda>n. n)") auto

declare show_nat.simps [simp del]

definition show_int :: "int \<Rightarrow> string" where
  "show_int i = (if i < 0 then ''-'' @ show_nat (nat (- i)) else show_nat (nat i))"

fun join :: "string \<Rightarrow> string list \<Rightarrow> string" where
  "join sep [] = []"
| "join sep [s] = s"
| "join sep (s # t # ss) = s @ sep @ join sep (t # ss)"

text \<open>The first exception of a list of results, or all their values.\<close>

fun collect :: "(js_error + 'a) list \<Rightarrow> js_error + 'a list" where
  "collect [] = Inr []"
| "collect (Inl e # rs) = Inl e"
| "collect (Inr x # rs) = (case collect rs of Inl e \<Rightarrow> Inl e | Inr xs \<Rightarrow> Inr (x # xs))"

text \<open>
  ToString, as \<^verbatim>\<open>${v}\<close> applies it; \<open>num\<close> is the platform's rendering of a
  number (plain decimals up to \<open>10^21\<close>, exponent form from there on). An array is
  its elements joined by commas, left to right, \<^verbatim>\<open>null\<close> and \<^verbatim>\<open>undefined\<close>
  elements rendered empty. A plain object is converted through its \<^verbatim>\<open>toString\<close>
  property: the inherited one gives \<^verbatim>\<open>[object Object]\<close>; an own property of that
  name holds a value, never a function, and then neither it nor the inherited
  \<^verbatim>\<open>valueOf\<close> yields a primitive, so the conversion throws a TypeError.
\<close>

fun to_string :: "(int \<Rightarrow> string) \<Rightarrow> jsval \<Rightarrow> js_error + string" where
  "to_string num JUndefined = Inr ''undefined''"
| "to_string num JNull = Inr ''null''"
| "to_string num (JBool b) = Inr (if b then ''true'' else ''false'')"
| "to_string num (JNum n) = Inr (num n)"
| "to_string num (JStr s) = Inr s"
| "to_string num (JArr xs) =
     (case collect (map (\<lambda>x. if x = JUndefined \<or> x = JNull then Inr [] else to_string num x) xs) of
        Inl e \<Rightarrow> Inl e
      | Inr ss \<Rightarrow> Inr (join '','' ss))"
| "to_string num (JObj kvs) =
     (if map_of kvs ''toString'' = None then Inr ''[object Object]''
      else Inl (TypeError ''Cannot convert object to primitive value''))"

subsection \<open>Properties\<close>

text \<open>
  \<^verbatim>\<open>o.k\<close> for the property names this program reads (\<^verbatim>\<open>access_token\<close>,
  \<^verbatim>\<open>links\<close>, \<^verbatim>\<open>rel\<close>, \<^verbatim>\<open>href\<close>, \<^verbatim>\<open>token_id\<close>, \<^verbatim>\<open>id\<close>, \<^verbatim>\<open>state\<close>,
  \<^verbatim>\<open>returnUrl\<close>, \<^verbatim>\<open>cancelUrl\<close>, \<^verbatim>\<open>agreement_id\<close>, \<^verbatim>\<open>amount\<close>,
  \<^verbatim>\<open>currency\<close>). On an object it is the own property or \<^verbatim>\<open>undefined\<close>; on a
  boolean, number, string or array it is \<^verbatim>\<open>undefined\<close>, since none of these names
  is an index, \<^verbatim>\<open>length\<close> or a prototype member.
\<close>

fun property :: "jsval \<Rightarrow> string \<Rightarrow> jsval" where
  "property (JObj kvs) k = (case map_of kvs k of None \<Rightarrow> JUndefined | Some v \<Rightarrow> v)"
| "property v k = JUndefined"

definition nullish :: "jsval \<Rightarrow> bool" where
  "nullish v = (v = JUndefined \<or> v = JNull)"

text \<open>How an error message names such a value.\<close>

definition nullish_text :: "jsval \<Rightarrow> string" where
  "nullish_text v = (if v = JNull then ''null'' else ''undefined'')"

text \<open>Reading a property of \<^verbatim>\<open>undefined\<close> or \<^verbatim>\<open>null\<close> throws a TypeError.\<close>

definition get_prop :: "jsval \<Rightarrow> string \<Rightarrow> js_error + jsval" where
  "get_prop v k =
     (if nullish v
      then Inl (TypeError (''Cannot read properties of '' @ nullish_text v @ '' (reading ''
                           @ quote @ k @ quote @ '')''))
      else Inr (property v k))"

text \<open>
  \<^verbatim>\<open>const { k, ... } = req.body\<close>: the pattern first requires a source that is
  neither \<^verbatim>\<open>undefined\<close> nor \<^verbatim>\<open>null\<close>; \<open>k\<close> is the first name of the pattern,
  the one V8 puts in the message.
\<close>

definition destructure :: "jsval \<Rightarrow> string \<Rightarrow> js_error + unit" where
  "destructure v k =
     (if nullish v
      then Inl (TypeError (''Cannot destructure property '' @ quote @ k @ quote @ '' of ''
                           @ quote @ ''req.body'' @ quote @ '' as it is '' @ nullish_text v @ ''.''))
      else Inr ())"

text \<open>\<^verbatim>\<open>v?.k\<close>: \<^verbatim>\<open>undefined\<close> when \<open>v\<close> is \<^verbatim>\<open>undefined\<close> or \<^verbatim>\<open>null\<close>.\<close>

definition optional_prop :: "jsval \<Rightarrow> string \<Rightarrow> jsval" where
  "optional_prop v k = (if nullish v then JUndefined else property v k)"

text \<open>The value a destructured name receives, with its default (\<^verbatim>\<open>k = d\<close>):
  the default replaces \<^verbatim>\<open>undefined\<close> only.\<close>

definition with_default :: "jsval \<Rightarrow> jsval \<Rightarrow> jsval" where
  "with_default v d = (if v = JUndefined then d else v)"

section \<open>The process and the world outside it\<close>

text \<open>\<^verbatim>\<open>process.env\<close>: each variable is a string or unset.\<close>

record process_env =
  PAYPAL_CLIENT_ID :: "string option"
  PAYPAL_CLIENT_SECRET :: "string option"
  PAYPAL_API_BASE :: "string option"

text \<open>The Express request, as far as the handlers read it: \<^verbatim>\<open>req.headers\<close>
  (lower-cased names), \<^verbatim>\<open>req.protocol\<close> and the parsed \<^verbatim>\<open>req.body\<close>.\<close>

record request =
  req_headers :: "string \<rightharpoonup> string"
  req_protocol :: string
  req_body :: jsval

text \<open>What a handler sends: \<^verbatim>\<open>res.status(s).json(v)\<close>; \<open>res_json\<close> is the value
  handed to \<^verbatim>\<open>res.json\<close>.\<close>

record response =
  res_status :: nat
  res_json :: jsval


text \<open>One outbound \<^verbatim>\<open>fetch(url, {method, headers, body})\<close>.\<close>

record fetch_call =
  fetch_url :: string
  fetch_method :: string
  fetch_headers :: "(string \<times> string) list"
  fetch_body :: "string option"

text \<open>
  What awaiting a call gives: \<^verbatim>\<open>fetch\<close> itself rejects, or a response arrives and
  reading its body with \<^verbatim>\<open>r.text()\<close> rejects, or the response has a status and a
  body text.
\<close>

datatype fetch_outcome =
    Rejected js_error
  | BodyRejected js_error
  | Responded nat string

text \<open>
  The platform the program runs on, taken as given: the base64 encoding of
  \<^verbatim>\<open>Buffer\<close>, the rendering of a number as a string, \<^verbatim>\<open>JSON.parse\<close>
  (\<open>Inl\<close> is the SyntaxError it throws), \<^verbatim>\<open>JSON.stringify\<close>, and the network:
  the provider's answer to a call may depend on the calls made before it.
\<close>

record runtime =
  base64 :: "string \<Rightarrow> string"
  Number_toString :: "int \<Rightarrow> string"
  JSON_parse :: "string \<Rightarrow> js_error + jsval"
  JSON_stringify :: "jsval \<Rightarrow> string"
  fetch :: "fetch_call list \<Rightarrow> fetch_call \<Rightarrow> fetch_outcome"

text \<open>\<^verbatim>\<open>r.ok\<close> of the Fetch standard: the status is in the range 200 to 299.\<close>

definition ok :: "nat \<Rightarrow> bool" where
  "ok st = (200 \<le> st \<and> st \<le> 299)"

text \<open>\<^verbatim>\<open>${process.env.X}\<close>: an unset variable renders as \<^verbatim>\<open>undefined\<close>.\<close>

definition env_string :: "string option \<Rightarrow> string" where
  "env_string v = (case v of None \<Rightarrow> ''undefined'' | Some s \<Rightarrow> s)"


text \<open>\<^verbatim>\<open>const BASE = process.env.PAYPAL_API_BASE || "https://api-m.sandbox.paypal.com"\<close>\<close>

definition BASE :: "process_env \<Rightarrow> string" where
  "BASE env =
     (case PAYPAL_API_BASE env of
        Some (c # cs) \<Rightarrow> c # cs
      | _ \<Rightarrow> ''https://api-m.sandbox.paypal.com'')"

section \<open>The OAuth helper and the REST helper\<close>

text \<open>The call \<^verbatim>\<open>getAccessToken\<close> makes.\<close>

definition token_request :: "process_env \<Rightarrow> runtime \<Rightarrow> fetch_call" where
  "token_request env rt =
     (let creds = env_string (PAYPAL_CLIENT_ID env) @ '':'' @ env_string (PAYPAL_CLIENT_SECRET env);
          auth = base64 rt creds
      in \<lparr> fetch_url = BASE env @ ''/v1/oauth2/token'',
           fetch_method = ''POST'',
           fetch_headers = [(''Authorization'', ''Basic '' @ auth),
                            (''Content-Type'', ''application/x-www-form-urlencoded'')],
           fetch_body = Some ''grant_type=client_credentials'' \<rparr>)"

text \<open>
  \<^verbatim>\<open>getAccessToken()\<close>. \<open>calls\<close> is the list of outbound calls made so far; the
  result carries the list extended by this one.
\<close>

definition getAccessToken ::
  "process_env \<Rightarrow> runtime \<Rightarrow> fetch_call list \<Rightarrow> (js_error + jsval) \<times> fetch_call list" where
  "getAccessToken env rt calls =
     (let rq = token_request env rt in
      (case fetch rt calls rq of
         Rejected e \<Rightarrow> Inl e
       | BodyRejected e \<Rightarrow> Inl e
       | Responded st text \<Rightarrow>
           if \<not> ok st then Inl (Error (''OAuth failed: '' @ show_nat st @ '' '' @ text))
           else (case JSON_parse rt text of
                   Inl e \<Rightarrow> Inl e
                 | Inr j \<Rightarrow> get_prop j ''access_token''),
       calls @ [rq]))"

text \<open>The call \<^verbatim>\<open>pp\<close> makes once it holds a token; \<open>bearer\<close> is the token as
  \<^verbatim>\<open>`Bearer ${token}`\<close> renders it.\<close>

definition rest_request ::
  "process_env \<Rightarrow> runtime \<Rightarrow> string \<Rightarrow> string \<Rightarrow> string \<Rightarrow> jsval \<Rightarrow> fetch_call" where
  "rest_request env rt bearer method path body =
     \<lparr> fetch_url = BASE env @ path,
       fetch_method = method,
       fetch_headers = [(''Authorization'', ''Bearer '' @ bearer),
                        (''Content-Type'', ''application/json'')],
       fetch_body = (if truthy body then Some (JSON_stringify rt body) else None) \<rparr>"

text \<open>
  \<^verbatim>\<open>pp(method, path, body)\<close>. The arguments of \<^verbatim>\<open>fetch\<close> are evaluated before
  the call: when rendering the token into the Authorization header throws, no REST
  call is made.
\<close>

definition pp ::
  "process_env \<Rightarrow> runtime \<Rightarrow> string \<Rightarrow> string \<Rightarrow> jsval \<Rightarrow> fetch_call list
     \<Rightarrow> (js_error + jsval) \<times> fetch_call list" where
  "pp env rt method path body calls =
     (case getAccessToken env rt calls of
        (Inl e, calls1) \<Rightarrow> (Inl e, calls1)
      | (Inr token, calls1) \<Rightarrow>
          (case to_string (Number_toString rt) token of
             Inl e \<Rightarrow> (Inl e, calls1)
           | Inr bearer \<Rightarrow>
               (let rq = rest_request env rt bearer method path body in
                (case fetch rt calls1 rq of
                   Rejected e \<Rightarrow> Inl e
                 | BodyRejected e \<Rightarrow> Inl e
                 | Responded st text \<Rightarrow>
                     if \<not> ok st
                     then Inl (Error (''PayPal '' @ method @ '' '' @ path @ '' '' @ show_nat st
                                      @ '': '' @ text))
                     else if text \<noteq> [] then JSON_parse rt text else Inr (JObj []),
                 calls1 @ [rq]))))"

section \<open>The endpoint handlers\<close>

text \<open>\<^verbatim>\<open>res.status(500).json({ error: e.message })\<close>, the \<^verbatim>\<open>catch\<close> of every
  handler.\<close>

definition caught :: "js_error \<Rightarrow> response" where
  "caught e = \<lparr> res_status = 500, res_json = JObj [(''error'', JStr (message e))] \<rparr>"

subsection \<open>POST /api/ba/create-token\<close>

text \<open>\<^verbatim>\<open>req.headers["x-forwarded-proto"] || req.protocol || "https"\<close>\<close>

definition proto :: "request \<Rightarrow> string" where
  "proto req =
     (case req_headers req ''x-forwarded-proto'' of
        Some (c # cs) \<Rightarrow> c # cs
      | _ \<Rightarrow> if req_protocol req \<noteq> [] then req_protocol req else ''https'')"

text \<open>\<^verbatim>\<open>`${proto}://${host}`\<close> with \<^verbatim>\<open>host = req.headers.host\<close>.\<close>

definition baseUrl :: "request \<Rightarrow> string" where
  "baseUrl req =
     proto req @ ''://'' @ (case req_headers req ''host'' of None \<Rightarrow> ''undefined'' | Some h \<Rightarrow> h)"

text \<open>The payload of lines 72 to 89; reading \<^verbatim>\<open>req.body.returnUrl\<close> throws when the
  body is \<^verbatim>\<open>undefined\<close> or \<^verbatim>\<open>null\<close>.\<close>

definition create_token_payload :: "request \<Rightarrow> js_error + jsval" where
  "create_token_payload req =
     (case get_prop (req_body req) ''returnUrl'' of
        Inl e \<Rightarrow> Inl e
      | Inr r \<Rightarrow>
          (case get_prop (req_body req) ''cancelUrl'' of
             Inl e \<Rightarrow> Inl e
           | Inr c \<Rightarrow>
               (let returnUrl = js_or r (JStr (baseUrl req @ ''/ba.html?approved=1''));
                    cancelUrl = js_or c (JStr (baseUrl req @ ''/ba.html?canceled=1''))
                in Inr (JObj
                     [(''description'', JStr ''Consent for future charges (BA)''),
                      (''payer'', JObj [(''payment_method'', JStr ''PAYPAL'')]),
                      (''plan'', JObj
                         [(''type'', JStr ''MERCHANT_INITIATED_BILLING''),
                          (''merchant_preferences'', JObj
                             [(''return_url'', returnUrl),
                              (''cancel_url'', cancelUrl)])])]))))"

text \<open>\<^verbatim>\<open>ls.find((l) => l.rel === "approval_url")\<close> on the elements of an array.\<close>

fun find_approval :: "jsval list \<Rightarrow> js_error + jsval" where
  "find_approval [] = Inr JUndefined"
| "find_approval (l # ls) =
     (case get_prop l ''rel'' of
        Inl e \<Rightarrow> Inl e
      | Inr r \<Rightarrow> if r = JStr ''approval_url'' then Inr l else find_approval ls)"

text \<open>\<^verbatim>\<open>(tokenRes.links || []).find(...)\<close>: only an array has \<^verbatim>\<open>find\<close>.\<close>

definition approve_of :: "jsval \<Rightarrow> js_error + jsval" where
  "approve_of tokenRes =
     (case get_prop tokenRes ''links'' of
        Inl e \<Rightarrow> Inl e
      | Inr links \<Rightarrow>
          (case js_or links (JArr []) of
             JArr ls \<Rightarrow> find_approval ls
           | _ \<Rightarrow> Inl (TypeError ''(tokenRes.links || []).find is not a function'')))"

text \<open>Lines 96 to 101: the object handed to \<^verbatim>\<open>res.json\<close>.\<close>

definition create_token_result :: "jsval \<Rightarrow> js_error + jsval" where
  "create_token_result tokenRes =
     (case approve_of tokenRes of
        Inl e \<Rightarrow> Inl e
      | Inr approve \<Rightarrow>
          Inr (JObj [(''id'', js_or (property tokenRes ''token_id'') (property tokenRes ''id'')),
                     (''approve_url'', optional_prop approve ''href''),
                     (''raw'', tokenRes)]))"

definition create_token_handler ::
  "process_env \<Rightarrow> runtime \<Rightarrow> request \<Rightarrow> response \<times> fetch_call list" where
  "create_token_handler env rt req =
     (case create_token_payload req of
        Inl e \<Rightarrow> (caught e, [])
      | Inr payload \<Rightarrow>
          (case pp env rt ''POST'' ''/v1/billing-agreements/agreement-tokens'' payload [] of
             (Inl e, calls) \<Rightarrow> (caught e, calls)
           | (Inr tokenRes, calls) \<Rightarrow>
               (case create_token_result tokenRes of
                  Inl e \<Rightarrow> (caught e, calls)
                | Inr out \<Rightarrow> (\<lparr> res_status = 200, res_json = out \<rparr>, calls))))"

subsection \<open>POST /api/ba/create-agreement\<close>

definition create_agreement_handler ::
  "process_env \<Rightarrow> runtime \<Rightarrow> request \<Rightarrow> response \<times> fetch_call list" where
  "create_agreement_handler env rt req =
     (case destructure (req_body req) ''token_id'' of
        Inl e \<Rightarrow> (caught e, [])
      | Inr _ \<Rightarrow>
          (let token_id = property (req_body req) ''token_id'' in
           if \<not> truthy token_id
           then (\<lparr> res_status = 400, res_json = JObj [(''error'', JStr ''token_id required'')] \<rparr>, [])
           else
             (case pp env rt ''POST'' ''/v1/billing-agreements/agreements''
                        (JObj [(''token_id'', token_id)]) [] of
                (Inl e, calls) \<Rightarrow> (caught e, calls)
              | (Inr agr, calls) \<Rightarrow>
                  (case get_prop agr ''id'' of
                     Inl e \<Rightarrow> (caught e, calls)
                   | Inr agr_id \<Rightarrow>
                       (\<lparr> res_status = 200,
                          res_json = JObj [(''agreement_id'', agr_id),
                                           (''state'', property agr ''state''),
                                           (''raw'', agr)] \<rparr>, calls)))))"

subsection \<open>POST /api/ba/charge\<close>

text \<open>The order-creation payload of lines 137 to 145.\<close>

definition charge_payload :: "jsval \<Rightarrow> jsval \<Rightarrow> jsval \<Rightarrow> jsval" where
  "charge_payload agreement_id amount currency =
     JObj [(''intent'', JStr ''CAPTURE''),
           (''payment_source'', JObj
              [(''token'', JObj [(''id'', agreement_id), (''type'', JStr ''BILLING_AGREEMENT'')])]),
           (''purchase_units'', JArr
              [JObj [(''amount'', JObj [(''currency_code'', currency), (''value'', amount)])]])]"

text \<open>
  Line 146 evaluates \<^verbatim>\<open>{ order_id: order.id, capture }\<close>: first \<^verbatim>\<open>order.id\<close>, then
  the identifier \<^verbatim>\<open>capture\<close>, which no scope declares, so the evaluation throws a
  ReferenceError and \<^verbatim>\<open>res.json\<close> is never reached.
\<close>

definition charge_result :: "jsval \<Rightarrow> js_error + jsval" where
  "charge_result order =
     (case get_prop order ''id'' of
        Inl e \<Rightarrow> Inl e
      | Inr order_id \<Rightarrow> Inl (ReferenceError ''capture is not defined''))"

definition charge_handler ::
  "process_env \<Rightarrow> runtime \<Rightarrow> request \<Rightarrow> response \<times> fetch_call list" where
  "charge_handler env rt req =
     (case destructure (req_body req) ''agreement_id'' of
        Inl e \<Rightarrow> (caught e, [])
      | Inr _ \<Rightarrow>
          (let agreement_id = property (req_body req) ''agreement_id'';
               amount = with_default (property (req_body req) ''amount'') (JStr ''10.00'');
               currency = with_default (property (req_body req) ''currency'') (JStr ''USD'')
           in
           if \<not> truthy agreement_id
           then (\<lparr> res_status = 400,
                    res_json = JObj [(''error'', JStr ''agreement_id required'')] \<rparr>, [])
           else
             (case pp env rt ''POST'' ''/v2/checkout/orders''
                        (charge_payload agreement_id amount currency) [] of
                (Inl e, calls) \<Rightarrow> (caught e, calls)
              | (Inr order, calls) \<Rightarrow>
                  (case charge_result order of
                     Inl e \<Rightarrow> (caught e, calls)
                   | Inr out \<Rightarrow> (\<lparr> res_status = 200, res_json = out \<rparr>, calls)))))"

subsection \<open>GET /api/config\<close>


section \<open>The specification's reading of the responses\<close>




text \<open>The \<^verbatim>\<open>plan.merchant_preferences\<close> object of an agreement-token payload, where
  the return and cancel URLs travel.\<close>

definition merchant_preferences :: "jsval \<Rightarrow> jsval" where
  "merchant_preferences payload = property (property payload ''plan'') ''merchant_preferences''"

section \<open>A stub provider\<close>

text \<open>
  A concrete process, platform and provider on which the handlers can be evaluated:
  the provider of the specification's end-to-end scenario. Its token endpoint grants
  the token \<^verbatim>\<open>A21\<close>; agreement-token creation answers 201 with the token
  \<^verbatim>\<open>EC-1\<close> and its approval link; agreement creation answers 400; order creation
  answers 201; every other path answers 200 with an HTML page.
\<close>

definition stub_env :: process_env where
  "stub_env = \<lparr> PAYPAL_CLIENT_ID = Some ''cid'', PAYPAL_CLIENT_SECRET = Some ''sec'',
                PAYPAL_API_BASE = Some ''https://provider'' \<rparr>"

definition stub_token_text :: string where
  \<open>stub_token_text = ''{"access_token":"A21"}''\<close>

definition stub_agreement_token_text :: string where
  \<open>stub_agreement_token_text =
     ''{"token_id":"EC-1","links":[{"rel":"approval_url","href":"https://provider/approve?id=EC-1"}]}''\<close>

definition stub_agreement_token :: jsval where
  "stub_agreement_token =
     JObj [(''token_id'', JStr ''EC-1''),
           (''links'', JArr [JObj [(''rel'', JStr ''approval_url''),
                                   (''href'', JStr ''https://provider/approve?id=EC-1'')]])]"

definition stub_order_text :: string where
  \<open>stub_order_text = ''{"id":"O-1"}''\<close>

definition stub_invalid_text :: string where
  \<open>stub_invalid_text = ''{"name":"INVALID_TOKEN"}''\<close>

definition stub_denied_text :: string where
  \<open>stub_denied_text = ''{"error":"invalid_client"}''\<close>

definition stub_order_request_text :: string where
  \<open>stub_order_request_text =
     ''{"intent":"CAPTURE","payment_source":{"token":{"id":"B-1","type":"BILLING_AGREEMENT"}},''
     @ ''"purchase_units":[{"amount":{"currency_code":"USD","value":"25.00"}}]}''\<close>

text \<open>\<^verbatim>\<open>JSON.parse\<close> on the texts this provider sends: its JSON documents
  parse; the only other text it sends is the HTML page, at whose first character the
  parser gives up.\<close>

definition stub_parse :: "string \<Rightarrow> js_error + jsval" where
  "stub_parse text =
     (if text = stub_token_text then Inr (JObj [(''access_token'', JStr ''A21'')])
      else if text = stub_agreement_token_text then Inr stub_agreement_token
      else if text = stub_order_text then Inr (JObj [(''id'', JStr ''O-1'')])
      else if text = stub_invalid_text then Inr (JObj [(''name'', JStr ''INVALID_TOKEN'')])
      else if text = stub_denied_text then Inr (JObj [(''error'', JStr ''invalid_client'')])
      else Inl (SyntaxError ''Unexpected token < in JSON at position 0''))"

text \<open>\<^verbatim>\<open>JSON.stringify\<close> on values whose strings need no escaping: properties
  holding \<^verbatim>\<open>undefined\<close> are left out, \<^verbatim>\<open>undefined\<close> array elements become
  \<^verbatim>\<open>null\<close>.\<close>

definition dquote :: string where
  "dquote = [CHR 0x22]"

fun stub_stringify :: "jsval \<Rightarrow> string" where
  "stub_stringify JUndefined = []"
| "stub_stringify JNull = ''null''"
| "stub_stringify (JBool b) = (if b then ''true'' else ''false'')"
| "stub_stringify (JNum n) = show_int n"
| "stub_stringify (JStr s) = dquote @ s @ dquote"
| "stub_stringify (JArr xs) =
     ''['' @ join '','' (map (\<lambda>x. if x = JUndefined then ''null'' else stub_stringify x) xs) @ '']''"
| "stub_stringify (JObj kvs) =
     ''{'' @ join '',''
        (map (\<lambda>(k, v). dquote @ k @ dquote @ '':'' @ stub_stringify v)
           (filter (\<lambda>(k, v). v \<noteq> JUndefined) kvs)) @ ''}''"

definition stub_fetch :: "fetch_call list \<Rightarrow> fetch_call \<Rightarrow> fetch_outcome" where
  "stub_fetch calls rq =
     (if fetch_url rq = ''https://provider/v1/oauth2/token'' then Responded 200 stub_token_text
      else if fetch_url rq = ''https://provider/v1/billing-agreements/agreement-tokens''
      then Responded 201 stub_agreement_token_text
      else if fetch_url rq = ''https://provider/v1/billing-agreements/agreements''
      then Responded 400 stub_invalid_text
      else if fetch_url rq = ''https://provider/v2/checkout/orders''
      then Responded 201 stub_order_text
      else Responded 200 ''<html></html>'')"

definition stub_rt :: runtime where
  "stub_rt = \<lparr> base64 = (\<lambda>s. if s = ''cid:sec'' then ''Y2lkOnNlYw=='' else []),
               Number_toString = show_int,
               JSON_parse = stub_parse, JSON_stringify = stub_stringify, fetch = stub_fetch \<rparr>"

text \<open>The same platform in front of a provider that refuses the client credentials.\<close>

definition denying_rt :: runtime where
  "denying_rt = stub_rt \<lparr> fetch := (\<lambda>calls rq. Responded 401 stub_denied_text) \<rparr>"









text \<open>A request to \<^verbatim>\<open>shop.example\<close> that arrived through an HTTPS proxy, with the
  given parsed body; and the agreement-token payload the handler builds for it when
  the body is empty.\<close>

definition stub_request :: "jsval \<Rightarrow> request" where
  "stub_request b =
     \<lparr> req_headers = [''host'' \<mapsto> ''shop.example'', ''x-forwarded-proto'' \<mapsto> ''https''],
       req_protocol = ''https'', req_body = b \<rparr>"


section \<open>Outbound calls\<close>

lemma getAccessToken_calls:
  "snd (getAccessToken env rt calls) = calls @ [token_request env rt]"
  by (simp add: getAccessToken_def Let_def)

lemma pp_token_failed:
  assumes "fst (getAccessToken env rt calls) = Inl e"
  shows "pp env rt method path body calls = (Inl e, calls @ [token_request env rt])"
proof -
  obtain r cs where g: "getAccessToken env rt calls = (r, cs)"
    by (cases "getAccessToken env rt calls")
  from g assms have "r = Inl e" by simp
  moreover from g getAccessToken_calls [of env rt calls] have "cs = calls @ [token_request env rt]"
    by simp
  ultimately show ?thesis using g by (simp add: pp_def)
qed

lemma pp_token_unrendered:
  assumes "fst (getAccessToken env rt calls) = Inr token"
      and "to_string (Number_toString rt) token = Inl e"
  shows "pp env rt method path body calls = (Inl e, calls @ [token_request env rt])"
proof -
  obtain r cs where g: "getAccessToken env rt calls = (r, cs)"
    by (cases "getAccessToken env rt calls")
  from g assms(1) have "r = Inr token" by simp
  moreover from g getAccessToken_calls [of env rt calls] have "cs = calls @ [token_request env rt]"
    by simp
  ultimately show ?thesis using g assms(2) by (simp add: pp_def)
qed

lemma pp_token_ok:
  assumes "fst (getAccessToken env rt calls) = Inr token"
      and "to_string (Number_toString rt) token = Inr bearer"
  shows "pp env rt method path body calls =
    ((case fetch rt (calls @ [token_request env rt]) (rest_request env rt bearer method path body) of
        Rejected e \<Rightarrow> Inl e
      | BodyRejected e \<Rightarrow> Inl e
      | Responded st text \<Rightarrow>
          if \<not> ok st
          then Inl (Error (''PayPal '' @ method @ '' '' @ path @ '' '' @ show_nat st @ '': '' @ text))
          else if text \<noteq> [] then JSON_parse rt text else Inr (JObj [])),
     calls @ [token_request env rt, rest_request env rt bearer method path body])"
proof -
  obtain r cs where g: "getAccessToken env rt calls = (r, cs)"
    by (cases "getAccessToken env rt calls")
  from g assms(1) have "r = Inr token" by simp
  moreover from g getAccessToken_calls [of env rt calls] have "cs = calls @ [token_request env rt]"
    by simp
  ultimately show ?thesis using g assms(2) by (simp add: pp_def Let_def)
qed

lemma pp_calls_cases:
  "snd (pp env rt method path body calls) = calls @ [token_request env rt] \<or>
   (\<exists>token bearer. fst (getAccessToken env rt calls) = Inr token \<and>
      to_string (Number_toString rt) token = Inr bearer \<and>
      snd (pp env rt method path body calls) =
        calls @ [token_request env rt, rest_request env rt bearer method path body])"
proof (cases "fst (getAccessToken env rt calls)")
  case (Inl e)
  then show ?thesis by (simp add: pp_token_failed)
next
  case (Inr token)
  show ?thesis
  proof (cases "to_string (Number_toString rt) token")
    case (Inl e)
    with Inr show ?thesis by (simp add: pp_token_unrendered)
  next
    case bearer: (Inr bearer)
    with Inr show ?thesis by (simp add: pp_token_ok)
  qed
qed

lemma pp_calls_nonempty: "snd (pp env rt method path body calls) \<noteq> []"
  using pp_calls_cases [of env rt "method" "path" "body" calls] by auto

lemma oauth_failed:
  assumes "fetch rt calls (token_request env rt) = Responded st text" and "\<not> ok st"
  shows "getAccessToken env rt calls =
           (Inl (Error (''OAuth failed: '' @ show_nat st @ '' '' @ text)), calls @ [token_request env rt])"
  using assms by (simp add: getAccessToken_def Let_def)

section \<open>Values and validation\<close>

lemma truthy_property_not_nullish: "truthy (property v k) \<Longrightarrow> \<not> nullish v"
  by (cases v) (simp_all add: nullish_def)

lemma falsy_values:
  "(\<not> truthy v) = (v = JUndefined \<or> v = JNull \<or> v = JBool False \<or> v = JNum 0 \<or> v = JStr '''')"
  by (cases v) simp_all

lemma destructure_ok: "\<not> nullish v \<Longrightarrow> destructure v k = Inr ()"
  by (simp add: destructure_def)



lemma charge_handler_rejects:
  assumes "\<not> nullish (req_body req)" and "\<not> truthy (property (req_body req) ''agreement_id'')"
  shows "charge_handler env rt req =
           (\<lparr> res_status = 400, res_json = JObj [(''error'', JStr ''agreement_id required'')] \<rparr>, [])"
  using assms by (simp add: charge_handler_def destructure_ok)

lemma create_agreement_handler_rejects:
  assumes "\<not> nullish (req_body req)" and "\<not> truthy (property (req_body req) ''token_id'')"
  shows "create_agreement_handler env rt req =
           (\<lparr> res_status = 400, res_json = JObj [(''error'', JStr ''token_id required'')] \<rparr>, [])"
  using assms by (simp add: create_agreement_handler_def destructure_ok)

lemma charge_handler_accepts:
  assumes "truthy (property (req_body req) ''agreement_id'')"
  shows "charge_handler env rt req =
           (case pp env rt ''POST'' ''/v2/checkout/orders''
                   (charge_payload (property (req_body req) ''agreement_id'')
                      (with_default (property (req_body req) ''amount'') (JStr ''10.00''))
                      (with_default (property (req_body req) ''currency'') (JStr ''USD''))) [] of
              (Inl e, calls) \<Rightarrow> (caught e, calls)
            | (Inr order, calls) \<Rightarrow>
                (caught (if nullish order
                         then TypeError (''Cannot read properties of '' @ nullish_text order
                                         @ '' (reading '' @ quote @ ''id'' @ quote @ '')'')
                         else ReferenceError ''capture is not defined''), calls))"
  using assms truthy_property_not_nullish [OF assms]
  by (simp add: charge_handler_def destructure_ok charge_result_def get_prop_def Let_def
      split: prod.splits sum.splits)

lemma charge_handler_calls:
  assumes "truthy (property (req_body req) ''agreement_id'')"
  shows "snd (charge_handler env rt req)
           = snd (pp env rt ''POST'' ''/v2/checkout/orders''
                    (charge_payload (property (req_body req) ''agreement_id'')
                       (with_default (property (req_body req) ''amount'') (JStr ''10.00''))
                       (with_default (property (req_body req) ''currency'') (JStr ''USD''))) [])"
  unfolding charge_handler_accepts [OF assms] by (simp split: prod.splits sum.splits)

lemma charge_handler_no_calls:
  assumes "\<not> truthy (property (req_body req) ''agreement_id'')"
  shows "snd (charge_handler env rt req) = []"
  using assms by (simp add: charge_handler_def Let_def split: sum.splits)

lemma create_agreement_handler_calls:
  assumes "truthy (property (req_body req) ''token_id'')"
  shows "snd (create_agreement_handler env rt req)
           = snd (pp env rt ''POST'' ''/v1/billing-agreements/agreements''
                    (JObj [(''token_id'', property (req_body req) ''token_id'')]) [])"
  using assms truthy_property_not_nullish [OF assms]
  by (simp add: create_agreement_handler_def destructure_ok Let_def split: prod.splits sum.splits)

section \<open>The create-token response\<close>





lemma create_token_payload_ok:
  assumes "\<not> nullish (req_body req)"
  shows "create_token_payload req =
     Inr (JObj
       [(''description'', JStr ''Consent for future charges (BA)''),
        (''payer'', JObj [(''payment_method'', JStr ''PAYPAL'')]),
        (''plan'', JObj
           [(''type'', JStr ''MERCHANT_INITIATED_BILLING''),
            (''merchant_preferences'', JObj
               [(''return_url'', js_or (property (req_body req) ''returnUrl'')
                                   (JStr (baseUrl req @ ''/ba.html?approved=1''))),
                (''cancel_url'', js_or (property (req_body req) ''cancelUrl'')
                                   (JStr (baseUrl req @ ''/ba.html?canceled=1'')))])])])"
  using assms by (simp add: create_token_payload_def get_prop_def Let_def)

lemma create_token_handler_calls:
  assumes "create_token_payload req = Inr payload"
  shows "snd (create_token_handler env rt req)
           = snd (pp env rt ''POST'' ''/v1/billing-agreements/agreement-tokens'' payload [])"
  using assms by (simp add: create_token_handler_def split: prod.splits sum.splits)


section \<open>The handlers on the stub provider\<close>

lemmas stub_defs =
  stub_env_def stub_rt_def stub_fetch_def stub_parse_def stub_request_def stub_token_text_def
  stub_agreement_token_text_def stub_agreement_token_def stub_order_text_def
  stub_invalid_text_def stub_denied_text_def denying_rt_def

lemma stub_getAccessToken:
  "getAccessToken stub_env stub_rt [] = (Inr (JStr ''A21''), [token_request stub_env stub_rt])"
  by (simp add: getAccessToken_def token_request_def BASE_def ok_def get_prop_def nullish_def
      Let_def stub_defs)

lemma stub_bearer: "to_string (Number_toString rt) (JStr ''A21'') = Inr ''A21''"
  by simp

lemma stub_pp_orders:
  "fst (pp stub_env stub_rt ''POST'' ''/v2/checkout/orders'' body []) = Inr (JObj [(''id'', JStr ''O-1'')])"
  by (simp add: pp_token_ok [OF _ stub_bearer] stub_getAccessToken)
     (simp add: rest_request_def BASE_def ok_def stub_defs)














section \<open>The claims\<close>

text \<open>
  Claim C1, as the code has it. The charge handler answers 500 to every request
  whose \<^verbatim>\<open>agreement_id\<close> is truthy: whatever the provider does, no path reaches
  \<^verbatim>\<open>res.json\<close>. In particular, when order creation succeeds with an order that is
  not \<^verbatim>\<open>null\<close>, building the response object throws the ReferenceError for the
  undeclared \<^verbatim>\<open>capture\<close>, and that message is what the client receives.
\<close>

theorem charge_truthy_agreement_id_500:
  assumes "truthy (property (req_body req) ''agreement_id'')"
  shows "res_status (fst (charge_handler env rt req)) = 500 \<and>
         (\<forall>order. fst (pp env rt ''POST'' ''/v2/checkout/orders''
                        (charge_payload (property (req_body req) ''agreement_id'')
                           (with_default (property (req_body req) ''amount'') (JStr ''10.00''))
                           (with_default (property (req_body req) ''currency'') (JStr ''USD''))) [])
                    = Inr order \<and> \<not> nullish order \<longrightarrow>
            res_json (fst (charge_handler env rt req))
              = JObj [(''error'', JStr ''capture is not defined'')])"
  unfolding charge_handler_accepts [OF assms]
  by (auto simp: caught_def split: prod.splits sum.splits)

theorem charge_truthy_agreement_id_500_witness:
  "res_status (fst (charge_handler stub_env stub_rt
      (stub_request (JObj [(''agreement_id'', JStr ''B-1'')])))) = 500 \<and>
   res_json (fst (charge_handler stub_env stub_rt
      (stub_request (JObj [(''agreement_id'', JStr ''B-1'')]))))
     = JObj [(''error'', JStr ''capture is not defined'')]"
proof -
  let ?req = "stub_request (JObj [(''agreement_id'', JStr ''B-1'')])"
  have t: "truthy (property (req_body ?req) ''agreement_id'')"
    by (simp add: stub_request_def)
  from charge_truthy_agreement_id_500 [OF t, of stub_env stub_rt] show ?thesis
    by (simp add: stub_pp_orders nullish_def)
qed

text \<open>
  Claim C1 as stated speaks of every present \<^verbatim>\<open>agreement_id\<close>. An
  \<^verbatim>\<open>agreement_id\<close> that is present and the empty string does not pass the guard of
  line 133: the answer is 400, not 500, and nothing is sent to the provider.
\<close>

theorem charge_empty_agreement_id_counterexample:
  "property (JObj [(''agreement_id'', JStr '''')]) ''agreement_id'' = JStr '''' \<and>
   charge_handler stub_env stub_rt (stub_request (JObj [(''agreement_id'', JStr '''')]))
     = (\<lparr> res_status = 400, res_json = JObj [(''error'', JStr ''agreement_id required'')] \<rparr>, [])"
  by (simp add: charge_handler_def destructure_def nullish_def stub_request_def)




text \<open>
  Claim C3. When the provider's token endpoint answers with a status outside 200 to
  299, \<^verbatim>\<open>getAccessToken\<close> fails with the error
  \<^verbatim>\<open>OAuth failed: <status> <body>\<close>, and each of the three handlers that reaches
  the token endpoint (that is, makes any outbound call at all) answers 500 with exactly
  that message, after that single call. The handlers reach it for every create-token
  request with a parsed body, every create-agreement request with a truthy
  \<^verbatim>\<open>token_id\<close> and every charge request with a truthy \<^verbatim>\<open>agreement_id\<close>.
\<close>

theorem oauth_failure_500:
  assumes "fetch rt [] (token_request env rt) = Responded st text" and "\<not> ok st"
  shows "getAccessToken env rt [] =
           (Inl (Error (''OAuth failed: '' @ show_nat st @ '' '' @ text)), [token_request env rt]) \<and>
         (snd (create_token_handler env rt req) \<noteq> [] \<longrightarrow>
            create_token_handler env rt req =
              (\<lparr> res_status = 500,
                 res_json = JObj [(''error'', JStr (''OAuth failed: '' @ show_nat st @ '' '' @ text))] \<rparr>,
               [token_request env rt])) \<and>
         (snd (create_agreement_handler env rt req) \<noteq> [] \<longrightarrow>
            create_agreement_handler env rt req =
              (\<lparr> res_status = 500,
                 res_json = JObj [(''error'', JStr (''OAuth failed: '' @ show_nat st @ '' '' @ text))] \<rparr>,
               [token_request env rt])) \<and>
         (snd (charge_handler env rt req) \<noteq> [] \<longrightarrow>
            charge_handler env rt req =
              (\<lparr> res_status = 500,
                 res_json = JObj [(''error'', JStr (''OAuth failed: '' @ show_nat st @ '' '' @ text))] \<rparr>,
               [token_request env rt])) \<and>
         (\<not> nullish (req_body req) \<longrightarrow> snd (create_token_handler env rt req) \<noteq> []) \<and>
         (truthy (property (req_body req) ''token_id'') \<longrightarrow>
            snd (create_agreement_handler env rt req) \<noteq> []) \<and>
         (truthy (property (req_body req) ''agreement_id'') \<longrightarrow>
            snd (charge_handler env rt req) \<noteq> [])"
proof -
  let ?e = "Error (''OAuth failed: '' @ show_nat st @ '' '' @ text)"
  have g: "getAccessToken env rt [] = (Inl ?e, [token_request env rt])"
    using oauth_failed [OF assms] by simp
  then have p: "pp env rt m p b [] = (Inl ?e, [token_request env rt])" for m p b
    using pp_token_failed [of env rt "[]" ?e m p b] by simp
  have a: "snd (create_token_handler env rt req) \<noteq> [] \<longrightarrow>
             create_token_handler env rt req = (caught ?e, [token_request env rt])"
    by (simp add: create_token_handler_def p split: sum.splits)
  have b: "snd (create_agreement_handler env rt req) \<noteq> [] \<longrightarrow>
             create_agreement_handler env rt req = (caught ?e, [token_request env rt])"
    by (simp add: create_agreement_handler_def Let_def p split: sum.splits)
  have c: "snd (charge_handler env rt req) \<noteq> [] \<longrightarrow>
             charge_handler env rt req = (caught ?e, [token_request env rt])"
    by (simp add: charge_handler_def Let_def p split: sum.splits)
  have d: "\<not> nullish (req_body req) \<longrightarrow> snd (create_token_handler env rt req) \<noteq> []"
    by (simp add: create_token_handler_calls [OF create_token_payload_ok] pp_calls_nonempty)
  have e: "truthy (property (req_body req) ''token_id'') \<longrightarrow>
             snd (create_agreement_handler env rt req) \<noteq> []"
    by (simp add: create_agreement_handler_calls pp_calls_nonempty)
  have f: "truthy (property (req_body req) ''agreement_id'') \<longrightarrow>
             snd (charge_handler env rt req) \<noteq> []"
    by (simp add: charge_handler_calls pp_calls_nonempty)
  from g a b c d e f show ?thesis by (simp add: caught_def)
qed

theorem oauth_failure_500_witness:
  "getAccessToken stub_env denying_rt []
     = (Inl (Error (''OAuth failed: 401 '' @ stub_denied_text)), [token_request stub_env denying_rt]) \<and>
   create_token_handler stub_env denying_rt (stub_request (JObj []))
     = (\<lparr> res_status = 500,
          res_json = JObj [(''error'', JStr (''OAuth failed: 401 '' @ stub_denied_text))] \<rparr>,
        [token_request stub_env denying_rt]) \<and>
   create_agreement_handler stub_env denying_rt (stub_request (JObj [(''token_id'', JStr ''EC-1'')]))
     = (\<lparr> res_status = 500,
          res_json = JObj [(''error'', JStr (''OAuth failed: 401 '' @ stub_denied_text))] \<rparr>,
        [token_request stub_env denying_rt]) \<and>
   charge_handler stub_env denying_rt (stub_request (JObj [(''agreement_id'', JStr ''B-1'')]))
     = (\<lparr> res_status = 500,
          res_json = JObj [(''error'', JStr (''OAuth failed: 401 '' @ stub_denied_text))] \<rparr>,
        [token_request stub_env denying_rt])"
proof -
  have r: "fetch denying_rt [] (token_request stub_env denying_rt)
             = Responded 401 stub_denied_text"
    by (simp add: denying_rt_def)
  have n: "\<not> ok 401" by (simp add: ok_def)
  have s: "show_nat 401 = ''401''" by (simp add: show_nat.simps digit_def)
  have "\<not> nullish (req_body (stub_request (JObj [])))"
    by (simp add: stub_request_def nullish_def)
  then have a: "snd (create_token_handler stub_env denying_rt (stub_request (JObj []))) \<noteq> []"
    by (simp add: create_token_handler_calls [OF create_token_payload_ok] pp_calls_nonempty)
  have "truthy (property (req_body (stub_request (JObj [(''token_id'', JStr ''EC-1'')]))) ''token_id'')"
    by (simp add: stub_request_def)
  then have b: "snd (create_agreement_handler stub_env denying_rt
                  (stub_request (JObj [(''token_id'', JStr ''EC-1'')]))) \<noteq> []"
    by (simp add: create_agreement_handler_calls pp_calls_nonempty)
  have "truthy (property (req_body (stub_request (JObj [(''agreement_id'', JStr ''B-1'')]))) ''agreement_id'')"
    by (simp add: stub_request_def)
  then have c: "snd (charge_handler stub_env denying_rt
                  (stub_request (JObj [(''agreement_id'', JStr ''B-1'')]))) \<noteq> []"
    by (simp add: charge_handler_calls pp_calls_nonempty)
  from oauth_failure_500 [OF r n, of "stub_request (JObj [])"]
       oauth_failure_500 [OF r n, of "stub_request (JObj [(''token_id'', JStr ''EC-1'')])"]
       oauth_failure_500 [OF r n, of "stub_request (JObj [(''agreement_id'', JStr ''B-1'')])"]
       a b c s
  show ?thesis by simp
qed




text \<open>
  Claim C5, as the code has it. For a request with a parsed body, the
  \<^verbatim>\<open>return_url\<close> submitted to the provider is the body's \<^verbatim>\<open>returnUrl\<close> when
  that is truthy, and otherwise (omitted, or empty, \<^verbatim>\<open>0\<close>, \<^verbatim>\<open>null\<close>,
  \<^verbatim>\<open>false\<close>) \<^verbatim>\<open>{scheme}://{host}/ba.html?approved=1\<close>; likewise
  \<^verbatim>\<open>cancel_url\<close> with \<^verbatim>\<open>cancelUrl\<close> and \<^verbatim>\<open>canceled=1\<close>. The scheme is the
  \<^verbatim>\<open>x-forwarded-proto\<close> header when present and not empty, else the request's own
  protocol (\<^verbatim>\<open>https\<close> should that be empty); the host is the \<^verbatim>\<open>host\<close> header (the
  text \<^verbatim>\<open>undefined\<close> when the request has none). Once a token is acquired and
  rendered into the Authorization header, the serialised payload is the body of the
  second outbound call.
\<close>

theorem create_token_urls:
  assumes "\<not> nullish (req_body req)"
      and "scheme = (case req_headers req ''x-forwarded-proto'' of
                       Some (c # cs) \<Rightarrow> c # cs
                     | _ \<Rightarrow> if req_protocol req = [] then ''https'' else req_protocol req)"
      and "host = (case req_headers req ''host'' of None \<Rightarrow> ''undefined'' | Some h \<Rightarrow> h)"
  shows "\<exists>payload. create_token_payload req = Inr payload \<and>
           property (merchant_preferences payload) ''return_url''
             = (if truthy (property (req_body req) ''returnUrl'')
                then property (req_body req) ''returnUrl''
                else JStr (scheme @ ''://'' @ host @ ''/ba.html?approved=1'')) \<and>
           property (merchant_preferences payload) ''cancel_url''
             = (if truthy (property (req_body req) ''cancelUrl'')
                then property (req_body req) ''cancelUrl''
                else JStr (scheme @ ''://'' @ host @ ''/ba.html?canceled=1'')) \<and>
           (\<forall>token bearer.
              fst (getAccessToken env rt []) = Inr token \<and>
              to_string (Number_toString rt) token = Inr bearer \<longrightarrow>
              map fetch_body (snd (create_token_handler env rt req))
                = [Some ''grant_type=client_credentials'', Some (JSON_stringify rt payload)])"
proof -
  have b: "baseUrl req = scheme @ ''://'' @ host"
    using assms(2,3) by (auto simp: baseUrl_def proto_def split: option.splits list.splits)
  note p = create_token_payload_ok [OF assms(1)]
  have "map fetch_body (snd (create_token_handler env rt req))
          = [Some ''grant_type=client_credentials'', Some (JSON_stringify rt payload)]"
    if "fst (getAccessToken env rt []) = Inr token"
      and "to_string (Number_toString rt) token = Inr bearer"
      and "create_token_payload req = Inr payload"
    for token bearer payload
    using that p
    by (auto simp: create_token_handler_calls pp_token_ok token_request_def rest_request_def Let_def)
  with p b show ?thesis
    by (simp add: merchant_preferences_def js_or_def)
qed

theorem create_token_urls_witness:
  "\<exists>payload. create_token_payload (stub_request (JObj [(''cancelUrl'', JStr ''https://shop.example/no'')]))
                = Inr payload \<and>
     property (merchant_preferences payload) ''return_url''
       = JStr ''https://shop.example/ba.html?approved=1'' \<and>
     property (merchant_preferences payload) ''cancel_url'' = JStr ''https://shop.example/no'' \<and>
     map fetch_body (snd (create_token_handler stub_env stub_rt
           (stub_request (JObj [(''cancelUrl'', JStr ''https://shop.example/no'')]))))
       = [Some ''grant_type=client_credentials'', Some (stub_stringify payload)]"
proof -
  let ?req = "stub_request (JObj [(''cancelUrl'', JStr ''https://shop.example/no'')])"
  have n: "\<not> nullish (req_body ?req)"
    by (simp add: stub_request_def nullish_def)
  have s: "''https'' = (case req_headers ?req ''x-forwarded-proto'' of
                          Some (c # cs) \<Rightarrow> c # cs
                        | _ \<Rightarrow> if req_protocol ?req = [] then ''https'' else req_protocol ?req)"
    by (simp add: stub_request_def)
  have h: "''shop.example'' = (case req_headers ?req ''host'' of None \<Rightarrow> ''undefined'' | Some h \<Rightarrow> h)"
    by (simp add: stub_request_def)
  have r: "property (req_body ?req) ''returnUrl'' = JUndefined"
          "property (req_body ?req) ''cancelUrl'' = JStr ''https://shop.example/no''"
    by (simp_all add: stub_request_def)
  have t: "fst (getAccessToken stub_env stub_rt []) = Inr (JStr ''A21'')"
    by (simp add: stub_getAccessToken)
  have j: "JSON_stringify stub_rt = stub_stringify"
    by (simp add: stub_rt_def)
  from create_token_urls [OF n s h, of stub_env stub_rt] obtain payload where
    "create_token_payload ?req = Inr payload"
    "property (merchant_preferences payload) ''return_url''
       = (if truthy (property (req_body ?req) ''returnUrl'')
          then property (req_body ?req) ''returnUrl''
          else JStr (''https'' @ ''://'' @ ''shop.example'' @ ''/ba.html?approved=1''))"
    "property (merchant_preferences payload) ''cancel_url''
       = (if truthy (property (req_body ?req) ''cancelUrl'')
          then property (req_body ?req) ''cancelUrl''
          else JStr (''https'' @ ''://'' @ ''shop.example'' @ ''/ba.html?canceled=1''))"
    "\<forall>token bearer.
       fst (getAccessToken stub_env stub_rt []) = Inr token \<and>
       to_string (Number_toString stub_rt) token = Inr bearer \<longrightarrow>
       map fetch_body (snd (create_token_handler stub_env stub_rt ?req))
         = [Some ''grant_type=client_credentials'', Some (JSON_stringify stub_rt payload)]"
    by blast
  with t stub_bearer [of stub_rt] show ?thesis
    unfolding r j by (intro exI [of _ payload]) auto
qed

text \<open>
  Claim C5 as stated has every supplied \<^verbatim>\<open>returnUrl\<close> used unchanged and the
  scheme taken from the forwarded-protocol header whenever it is present. A request
  whose \<^verbatim>\<open>returnUrl\<close> is the empty string, and whose forwarded-protocol header is
  empty, gets the derived return URL instead, built on the request's own protocol.
\<close>

theorem create_token_empty_returnUrl_counterexample:
  "property (JObj [(''returnUrl'', JStr '''')]) ''returnUrl'' = JStr '''' \<and>
   create_token_payload
     \<lparr> req_headers = [''host'' \<mapsto> ''shop.example'', ''x-forwarded-proto'' \<mapsto> ''''],
       req_protocol = ''http'', req_body = JObj [(''returnUrl'', JStr '''')] \<rparr>
     = Inr (JObj
         [(''description'', JStr ''Consent for future charges (BA)''),
          (''payer'', JObj [(''payment_method'', JStr ''PAYPAL'')]),
          (''plan'', JObj
             [(''type'', JStr ''MERCHANT_INITIATED_BILLING''),
              (''merchant_preferences'', JObj
                 [(''return_url'', JStr ''http://shop.example/ba.html?approved=1''),
                  (''cancel_url'', JStr ''http://shop.example/ba.html?canceled=1'')])])])"
  by (simp add: create_token_payload_def get_prop_def nullish_def js_or_def baseUrl_def proto_def)

text \<open>
  Claim C6. Every order-creation call the charge handler makes is a POST whose body
  is the serialisation of: intent \<^verbatim>\<open>CAPTURE\<close>, a payment source token of type
  \<^verbatim>\<open>BILLING_AGREEMENT\<close> whose id is the request's \<^verbatim>\<open>agreement_id\<close>, and exactly
  one purchase unit whose amount has the request's \<^verbatim>\<open>currency\<close> and \<^verbatim>\<open>amount\<close>,
  with \<^verbatim>\<open>USD\<close> and \<^verbatim>\<open>10.00\<close> in place of an omitted one. The call is made
  whenever the \<^verbatim>\<open>agreement_id\<close> passes the handler's check and a token is acquired
  and rendered into the Authorization header.
\<close>

theorem charge_order_payload:
  "(\<forall>rq \<in> set (snd (charge_handler env rt req)).
      fetch_url rq = BASE env @ ''/v2/checkout/orders'' \<longrightarrow>
      fetch_method rq = ''POST'' \<and>
      fetch_body rq = Some (JSON_stringify rt (JObj
        [(''intent'', JStr ''CAPTURE''),
         (''payment_source'', JObj
            [(''token'', JObj [(''id'', property (req_body req) ''agreement_id''),
                               (''type'', JStr ''BILLING_AGREEMENT'')])]),
         (''purchase_units'', JArr
            [JObj [(''amount'', JObj
               [(''currency_code'',
                   if property (req_body req) ''currency'' = JUndefined then JStr ''USD''
                   else property (req_body req) ''currency''),
                (''value'',
                   if property (req_body req) ''amount'' = JUndefined then JStr ''10.00''
                   else property (req_body req) ''amount'')])]])]))) \<and>
   (truthy (property (req_body req) ''agreement_id'') \<and> fst (getAccessToken env rt []) = Inr token \<and>
    to_string (Number_toString rt) token = Inr bearer \<longrightarrow>
      map fetch_url (snd (charge_handler env rt req))
        = [BASE env @ ''/v1/oauth2/token'', BASE env @ ''/v2/checkout/orders''])"
proof (cases "truthy (property (req_body req) ''agreement_id'')")
  case False
  then show ?thesis by (simp add: charge_handler_no_calls)
next
  case True
  note c = charge_handler_calls [OF True]
  show ?thesis
  proof (cases "fst (getAccessToken env rt [])")
    case (Inl e)
    then show ?thesis
      by (simp add: c pp_token_failed token_request_def)
  next
    case (Inr tok)
    show ?thesis
    proof (cases "to_string (Number_toString rt) tok")
      case (Inl e)
      with Inr show ?thesis
        by (auto simp: c pp_token_unrendered token_request_def)
    next
      case rendered: (Inr b)
      with Inr show ?thesis
        by (simp add: c pp_token_ok token_request_def rest_request_def charge_payload_def
            with_default_def Let_def)
    qed
  qed
qed

theorem charge_order_payload_witness:
  "map fetch_url (snd (charge_handler stub_env stub_rt
       (stub_request (JObj [(''agreement_id'', JStr ''B-1''), (''amount'', JStr ''25.00'')]))))
     = [''https://provider/v1/oauth2/token'', ''https://provider/v2/checkout/orders''] \<and>
   fetch_body (snd (charge_handler stub_env stub_rt
       (stub_request (JObj [(''agreement_id'', JStr ''B-1''), (''amount'', JStr ''25.00'')]))) ! 1)
     = Some stub_order_request_text"
proof -
  let ?req = "stub_request (JObj [(''agreement_id'', JStr ''B-1''), (''amount'', JStr ''25.00'')])"
  have u: "map fetch_url (snd (charge_handler stub_env stub_rt ?req))
             = [''https://provider/v1/oauth2/token'', ''https://provider/v2/checkout/orders'']"
    using charge_order_payload [of stub_env stub_rt ?req "JStr ''A21''" "''A21''"]
    by (simp add: stub_getAccessToken) (simp add: stub_request_def BASE_def stub_env_def)
  then obtain a b where ab: "snd (charge_handler stub_env stub_rt ?req) = [a, b]"
    by auto
  with u have v: "fetch_url b = ''https://provider/v2/checkout/orders''" by simp
  from charge_order_payload [of stub_env stub_rt ?req "JStr ''A21''" "''A21''"] ab v
  have "fetch_body b
          = Some (JSON_stringify stub_rt (JObj
        [(''intent'', JStr ''CAPTURE''),
         (''payment_source'', JObj
            [(''token'', JObj [(''id'', property (req_body ?req) ''agreement_id''),
                               (''type'', JStr ''BILLING_AGREEMENT'')])]),
         (''purchase_units'', JArr
            [JObj [(''amount'', JObj
               [(''currency_code'',
                   if property (req_body ?req) ''currency'' = JUndefined then JStr ''USD''
                   else property (req_body ?req) ''currency''),
                (''value'',
                   if property (req_body ?req) ''amount'' = JUndefined then JStr ''10.00''
                   else property (req_body ?req) ''amount'')])]])]))"
    by (simp add: BASE_def stub_env_def)
  then have "fetch_body b
     = Some stub_order_request_text"
    by (simp add: stub_request_def stub_rt_def dquote_def stub_order_request_text_def)
  with u ab show ?thesis by simp
qed

text \<open>
  Claim C7, as the code has it. Once the token is acquired and rendered into the
  Authorization header, and the provider has answered the REST call with a status
  and a body text, \<^verbatim>\<open>pp\<close> fails with
  \<^verbatim>\<open>PayPal <method> <path> <status>: <text>\<close> when the status is not a success;
  on a success status it returns the empty object for an empty text and otherwise
  whatever \<^verbatim>\<open>JSON.parse\<close> makes of the text, its SyntaxError included.
\<close>

theorem pp_after_response:
  assumes "fst (getAccessToken env rt calls) = Inr token"
      and "to_string (Number_toString rt) token = Inr bearer"
      and "fetch rt (calls @ [token_request env rt]) (rest_request env rt bearer method path body)
             = Responded st text"
  shows "fst (pp env rt method path body calls) =
           (if \<not> ok st
            then Inl (Error (''PayPal '' @ method @ '' '' @ path @ '' '' @ show_nat st @ '': '' @ text))
            else if text = [] then Inr (JObj [])
            else JSON_parse rt text)"
  using assms by (simp add: pp_token_ok)

theorem pp_after_response_witness:
  "fst (pp stub_env stub_rt ''POST'' ''/v2/checkout/orders'' (JObj []) [])
     = Inr (JObj [(''id'', JStr ''O-1'')]) \<and>
   fst (pp stub_env stub_rt ''POST'' ''/v1/billing-agreements/agreements'' (JObj []) [])
     = Inl (Error (''PayPal POST /v1/billing-agreements/agreements 400: '' @ stub_invalid_text))"
proof -
  have t: "fst (getAccessToken stub_env stub_rt []) = Inr (JStr ''A21'')"
    by (simp add: stub_getAccessToken)
  note b = stub_bearer [of stub_rt]
  have r1: "fetch stub_rt ([] @ [token_request stub_env stub_rt])
              (rest_request stub_env stub_rt ''A21'' ''POST'' ''/v2/checkout/orders'' (JObj []))
              = Responded 201 stub_order_text"
    by (simp add: rest_request_def BASE_def stub_defs)
  have r2: "fetch stub_rt ([] @ [token_request stub_env stub_rt])
              (rest_request stub_env stub_rt ''A21'' ''POST''
                 ''/v1/billing-agreements/agreements'' (JObj []))
              = Responded 400 stub_invalid_text"
    by (simp add: rest_request_def BASE_def stub_defs)
  have s: "show_nat 400 = ''400''" by (simp add: show_nat.simps digit_def)
  from pp_after_response [OF t b r1] pp_after_response [OF t b r2] s show ?thesis
    by (simp add: ok_def stub_defs)
qed

text \<open>
  Claim C7 as stated has \<^verbatim>\<open>pp\<close> fail only if the status is not a success. A
  provider answering 200 with an HTML page makes it fail with the parser's
  SyntaxError.
\<close>

theorem pp_success_status_counterexample:
  "fetch stub_rt [token_request stub_env stub_rt]
     (rest_request stub_env stub_rt ''A21'' ''GET'' ''/v1/payments/billing-agreements/B-1''
        JUndefined)
     = Responded 200 ''<html></html>'' \<and>
   ok 200 \<and>
   fst (pp stub_env stub_rt ''GET'' ''/v1/payments/billing-agreements/B-1'' JUndefined [])
     = Inl (SyntaxError ''Unexpected token < in JSON at position 0'')"
  by (simp add: pp_token_ok [OF _ stub_bearer] stub_getAccessToken)
     (simp add: rest_request_def BASE_def ok_def stub_defs)







text \<open>
  Claim C10. The falsy values are \<^verbatim>\<open>undefined\<close>, \<^verbatim>\<open>null\<close>, \<^verbatim>\<open>false\<close>,
  \<^verbatim>\<open>0\<close> and the empty string. A create-agreement request whose \<^verbatim>\<open>token_id\<close>
  is present with a falsy value, and a charge request whose \<^verbatim>\<open>agreement_id\<close> is, are
  answered 400 with the same message as a request without the field, and no outbound
  call is made.
\<close>

theorem falsy_identifier_400:
  "(\<not> truthy v) = (v = JUndefined \<or> v = JNull \<or> v = JBool False \<or> v = JNum 0 \<or> v = JStr '''') \<and>
   (req_body ra = JObj kvs \<and> map_of kvs ''token_id'' = Some v \<and> \<not> truthy v \<longrightarrow>
      create_agreement_handler env rt ra =
        (\<lparr> res_status = 400, res_json = JObj [(''error'', JStr ''token_id required'')] \<rparr>, [])) \<and>
   (req_body rc = JObj kvs \<and> map_of kvs ''agreement_id'' = Some v \<and> \<not> truthy v \<longrightarrow>
      charge_handler env rt rc =
        (\<lparr> res_status = 400, res_json = JObj [(''error'', JStr ''agreement_id required'')] \<rparr>, []))"
  using falsy_values [of v]
  by (auto simp: create_agreement_handler_rejects charge_handler_rejects nullish_def)

theorem falsy_identifier_400_witness:
  "\<not> truthy (JNum 0) \<and>
   create_agreement_handler stub_env stub_rt (stub_request (JObj [(''token_id'', JNum 0), (''agreement_id'', JNum 0)]))
     = (\<lparr> res_status = 400, res_json = JObj [(''error'', JStr ''token_id required'')] \<rparr>, []) \<and>
   charge_handler stub_env stub_rt (stub_request (JObj [(''token_id'', JNum 0), (''agreement_id'', JNum 0)]))
     = (\<lparr> res_status = 400, res_json = JObj [(''error'', JStr ''agreement_id required'')] \<rparr>, [])"
  using falsy_identifier_400 [of "JNum 0"
          "stub_request (JObj [(''token_id'', JNum 0), (''agreement_id'', JNum 0)])"
          "[(''token_id'', JNum 0), (''agreement_id'', JNum 0)]" stub_env stub_rt
          "stub_request (JObj [(''token_id'', JNum 0), (''agreement_id'', JNum 0)])"]
  by (simp add: stub_request_def)

end
